theory Spec2Isabelle
  imports Complex_Main
begin

section \<open>ScanGuard backend: ingestion, daily statistics and alert lifecycle\<close>

text \<open>
  A shallow embedding of \<^verbatim>\<open>backend/src/controllers/cvController.js\<close>,
  \<^verbatim>\<open>backend/src/middleware/apiKeyAuth.js\<close> and \<^verbatim>\<open>backend/src/routes/cv.js\<close>.
  The PostgreSQL tables of \<^verbatim>\<open>migrations/001_initial_schema.sql\<close> are lists of rows
  (\<^verbatim>\<open>daily_stats\<close>, unique on (location, date), is a map); the Socket.IO server is a
  log of emissions; every \<^verbatim>\<open>await pool.query\<close> and every \<^verbatim>\<open>emit\<close> may throw, as
  the \<^verbatim>\<open>try/catch\<close> blocks of the handlers expect.
\<close>

subsection \<open>Values\<close>

type_synonym uuid = string

text \<open>
  An instant is a number of milliseconds since the epoch (the time value of a JavaScript
  \<^verbatim>\<open>Date\<close>, a \<^verbatim>\<open>TIMESTAMPTZ\<close>). A day is a number of days since the epoch: it
  stands for the string \<^verbatim>\<open>YYYY-MM-DD\<close> that
  \<^verbatim>\<open>toISOString().split("T")[0]\<close> yields, the UTC calendar date.
\<close>

type_synonym instant = int
type_synonym day = int

definition utc_day :: "instant \<Rightarrow> day" where
  "utc_day t = t div 86400000"

text \<open>
  The \<^verbatim>\<open>timestamp\<close> field of a request body, by what JavaScript makes of it:
  a falsy value (absent, \<^verbatim>\<open>null\<close>, the empty string, 0), a truthy value that
  \<^verbatim>\<open>new Date(timestamp)\<close> turns into an invalid date, or a truthy value that it
  reads as an instant.
\<close>

datatype js_time = TimeAbsent | TimeInvalid | TimeAt instant

text \<open>\<^verbatim>\<open>!timestamp\<close> is false exactly on the truthy values.\<close>

fun truthy_time :: "js_time \<Rightarrow> bool" where
  "truthy_time TimeAbsent = False"
| "truthy_time TimeInvalid = True"
| "truthy_time (TimeAt t) = True"

text \<open>
  \<^verbatim>\<open>new Date(timestamp).toISOString().split("T")[0]\<close>: \<^verbatim>\<open>toISOString\<close> throws a
  RangeError on an invalid date (\<open>None\<close>). The handlers only call it on a truthy
  timestamp.
\<close>

fun date_str :: "js_time \<Rightarrow> day option" where
  "date_str (TimeAt t) = Some (utc_day t)"
| "date_str TimeInvalid = None"
| "date_str TimeAbsent = None"

text \<open>
  Optional string, integer and number fields of a JSON body are \<open>option\<close> values
  (\<open>None\<close>: absent or \<^verbatim>\<open>null\<close>). The empty string and 0 are falsy in JavaScript,
  so \<^verbatim>\<open>!x\<close> and \<^verbatim>\<open>x || null\<close> treat them as absent. A JSON number is its exact
  value, a rational.
\<close>

definition truthy_str :: "string option \<Rightarrow> bool" where
  "truthy_str x = (case x of None \<Rightarrow> False | Some s \<Rightarrow> s \<noteq> [])"

definition str_or_null :: "string option \<Rightarrow> string option" where
  "str_or_null x = (if truthy_str x then x else None)"

definition int_or_null :: "int option \<Rightarrow> int option" where
  "int_or_null x = (case x of None \<Rightarrow> None | Some n \<Rightarrow> if n = 0 then None else Some n)"

definition num_or_null :: "rat option \<Rightarrow> rat option" where
  "num_or_null x = (case x of None \<Rightarrow> None | Some n \<Rightarrow> if n = 0 then None else Some n)"

definition int_or :: "int option \<Rightarrow> int \<Rightarrow> int" where
  "int_or x d = (case x of None \<Rightarrow> d | Some n \<Rightarrow> if n = 0 then d else n)"

definition num_or :: "rat option \<Rightarrow> rat \<Rightarrow> rat" where
  "num_or x d = (case x of None \<Rightarrow> d | Some n \<Rightarrow> if n = 0 then d else n)"

subsection \<open>Tables\<close>

record location =
  l_id :: uuid
  l_tenant_id :: uuid

record camera =
  c_id :: uuid
  c_location_id :: uuid
  c_camera_id :: string

text \<open>One element of the \<^verbatim>\<open>detections\<close> array of a detection request.\<close>

record detected_object =
  o_class_id :: int
  o_class_name :: string
  o_confidence :: rat
  o_bbox :: "rat list"
  o_track_id :: "int option"

record detection_row =
  d_id :: uuid
  d_camera_id :: "uuid option"
  d_location_id :: uuid
  d_frame_number :: int
  d_detections :: "detected_object list"
  d_detection_count :: int
  d_snapshot_b64 :: "string option"
  d_timestamp :: js_time
  d_created_at :: instant

record alert_row =
  a_id :: uuid
  a_camera_id :: "uuid option"
  a_location_id :: uuid
  a_type :: string
  a_severity :: string
  a_track_id :: "int option"
  a_class_name :: "string option"
  a_confidence :: "rat option"
  a_bbox :: "rat list option"
  a_snapshot_url :: "string option"
  a_snapshot_b64 :: "string option"
  a_description :: "string option"
  a_status :: string
  a_reviewed_by :: "uuid option"
  a_reviewed_at :: "instant option"
  a_created_at :: instant

text \<open>
  A row of \<^verbatim>\<open>daily_stats\<close> without its key columns (\<^verbatim>\<open>location_id\<close>,
  \<^verbatim>\<open>date\<close>), which are the key of the map, and without its own \<^verbatim>\<open>id\<close>, which
  no code reads.
\<close>

record stats_row =
  total_transactions :: int
  total_items_scanned :: int
  total_alerts :: int
  alerts_reviewed :: int
  alerts_confirmed :: int
  estimated_loss_cents :: int
  detection_count :: int
  avg_confidence :: rat
  s_created_at :: instant
  s_updated_at :: instant

subsection \<open>Real-time events\<close>

text \<open>\<^verbatim>\<open>io.emit\<close> reaches every client, \<^verbatim>\<open>io.to(room).emit\<close> the named room.\<close>

datatype room = Everyone | Room string

record detection_event =
  de_camera_id :: "string option"
  de_location_id :: uuid
  de_timestamp :: js_time
  de_objects :: "detected_object list"
  de_fps :: rat

record alert_event =
  ae_id :: uuid
  ae_camera_id :: "string option"
  ae_location_id :: uuid
  ae_type :: string
  ae_track_id :: "int option"
  ae_class_name :: "string option"
  ae_confidence :: "rat option"
  ae_bbox :: "rat list option"
  ae_description :: "string option"
  ae_snapshot_b64 :: "string option"
  ae_created_at :: instant

datatype payload =
    DetectionPayload detection_event
  | AlertPayload alert_event
  | CountUpdate uuid

record emission =
  to_room :: room
  event :: string
  data :: payload

subsection \<open>The state and the environment of a request\<close>

record world =
  locations :: "location list"
  cameras :: "camera list"
  cv_detections :: "detection_row list"
  alerts :: "alert_row list"
  daily_stats :: "uuid \<times> day \<Rightarrow> stats_row option"
  emitted :: "emission list"

text \<open>The statements the controller sends through \<^verbatim>\<open>pool.query\<close>, with their parameters.\<close>

datatype query =
    SelectCamera "string option"
  | InsertDetection detection_row
  | UpsertDetectionCount uuid day int
  | SelectCameraTenant "string option"
  | InsertAlert alert_row
  | UpsertTotalAlerts uuid day
  | UpdateAlertRow "string option" "string option" uuid
  | SelectAlert uuid
  | UpdateDailyStat string uuid day

text \<open>
  What a request does not decide itself: the clock (\<^verbatim>\<open>NOW()\<close>; the statements of one
  request read the same instant), the identifier \<^verbatim>\<open>uuid_generate_v4()\<close> gives the
  inserted row, the Socket.IO server registered under \<^verbatim>\<open>"io"\<close> (absent, or a
  predicate telling which \<^verbatim>\<open>emit\<close> throws), which statements the store refuses
  (it is unreachable, or a constraint or a column type of the schema rejects the
  statement: a missing referenced row, an \<^verbatim>\<open>INTEGER\<close> out of range, a text that
  is no timestamp), and the variable \<^verbatim>\<open>CV_API_KEYS\<close> of the process.
\<close>

record env =
  now :: instant
  new_id :: uuid
  io :: "(emission \<Rightarrow> bool) option"
  db_throws :: "world \<Rightarrow> query \<Rightarrow> bool"
  cv_api_keys :: "string option"

text \<open>
  A store that is always reachable and refuses exactly the statements that break a foreign
  key of \<^verbatim>\<open>001_initial_schema.sql\<close> on the modelled tables: \<^verbatim>\<open>location_id\<close> of
  \<^verbatim>\<open>cv_detections\<close>, \<^verbatim>\<open>alerts\<close> and \<^verbatim>\<open>daily_stats\<close> references
  \<^verbatim>\<open>locations(id)\<close> and is not null (lines 71, 117 and 133), and a non-null
  \<^verbatim>\<open>camera_id\<close> of \<^verbatim>\<open>cv_detections\<close> and \<^verbatim>\<open>alerts\<close> references
  \<^verbatim>\<open>cameras(id)\<close> (lines 70 and 116).
\<close>

definition foreign_keys :: "world \<Rightarrow> query \<Rightarrow> bool" where
  "foreign_keys w q =
     (case q of
        InsertDetection row \<Rightarrow>
          d_location_id row \<notin> set (map l_id (locations w))
          \<or> (case d_camera_id row of
                None \<Rightarrow> False
              | Some c \<Rightarrow> c \<notin> set (map c_id (cameras w)))
      | InsertAlert row \<Rightarrow>
          a_location_id row \<notin> set (map l_id (locations w))
          \<or> (case a_camera_id row of
                None \<Rightarrow> False
              | Some c \<Rightarrow> c \<notin> set (map c_id (cameras w)))
      | UpsertDetectionCount loc d n \<Rightarrow> loc \<notin> set (map l_id (locations w))
      | UpsertTotalAlerts loc d \<Rightarrow> loc \<notin> set (map l_id (locations w))
      | _ \<Rightarrow> False)"

subsection \<open>Responses\<close>

datatype body =
    Error string
  | Created uuid
  | Ack
  | Updated uuid string "instant option"

record response =
  http_status :: nat
  json :: body

definition respond :: "nat \<Rightarrow> body \<Rightarrow> response" where
  "respond s b = \<lparr>http_status = s, json = b\<rparr>"

definition internal_error :: response where
  "internal_error = respond 500 (Error ''Internal server error'')"

definition missing_fields :: response where
  "missing_fields = respond 400 (Error ''Missing required fields'')"

subsection \<open>Request bodies\<close>

text \<open>
  The fields the handlers destructure from \<^verbatim>\<open>req.body\<close>, with the types of the
  columns they are stored in: identifiers and texts are strings, \<^verbatim>\<open>detections\<close> is
  an array of objects, \<^verbatim>\<open>bbox\<close> an array of numbers. A body that carries a value of
  another JSON type in one of these fields is outside the model.
\<close>

record ingest_body =
  camera_id :: "string option"
  location_id :: "string option"
  timestamp :: js_time
  snapshot_b64 :: "string option"

record detection_body = ingest_body +
  frame_number :: "int option"
  detections :: "detected_object list option"
  fps :: "rat option"

record alert_body = ingest_body +
  track_id :: "int option"
  class_name :: "string option"
  confidence :: "rat option"
  bbox :: "rat list option"
  description :: "string option"

record update_request =
  param_id :: uuid
  status :: "string option"
  reviewed_by :: "string option"

subsection \<open>Statements on the tables\<close>

text \<open>The location the handlers fall back to when no camera matches.\<close>

definition fallback_location :: uuid where
  "fallback_location = ''2139ff48-35b8-423f-b4cb-64ca303ef625''"

text \<open>
  \<^verbatim>\<open>SELECT id AS cam_uuid, location_id AS loc_uuid FROM cameras WHERE camera_id = $1 LIMIT 1\<close>
\<close>

definition select_camera :: "world \<Rightarrow> string option \<Rightarrow> (uuid \<times> uuid) list" where
  "select_camera w cid =
     take 1 (map (\<lambda>c. (c_id c, c_location_id c))
               (filter (\<lambda>c. Some (c_camera_id c) = cid) (cameras w)))"

text \<open>
  \<^verbatim>\<open>SELECT c.id, c.location_id, l.tenant_id FROM cameras c JOIN locations l
  ON c.location_id = l.id WHERE c.camera_id = $1 LIMIT 1\<close>
\<close>

definition select_camera_tenant :: "world \<Rightarrow> string option \<Rightarrow> (uuid \<times> uuid \<times> uuid) list" where
  "select_camera_tenant w cid =
     take 1 (concat (map (\<lambda>c. map (\<lambda>l. (c_id c, c_location_id c, l_tenant_id l))
                                  (filter (\<lambda>l. l_id l = c_location_id c) (locations w)))
                       (filter (\<lambda>c. Some (c_camera_id c) = cid) (cameras w))))"

text \<open>A fresh row of \<^verbatim>\<open>daily_stats\<close>: every column at its default.\<close>

definition default_stats :: "instant \<Rightarrow> stats_row" where
  "default_stats t =
     \<lparr>total_transactions = 0, total_items_scanned = 0, total_alerts = 0,
      alerts_reviewed = 0, alerts_confirmed = 0, estimated_loss_cents = 0,
      detection_count = 0, avg_confidence = 0, s_created_at = t, s_updated_at = t\<rparr>"

text \<open>
  \<^verbatim>\<open>INSERT INTO daily_stats (location_id, date, detection_count) VALUES ($1, $2, $3)
  ON CONFLICT (location_id, date) DO UPDATE SET
  detection_count = daily_stats.detection_count + EXCLUDED.detection_count, updated_at = NOW()\<close>
\<close>

definition upsert_detection_count :: "instant \<Rightarrow> uuid \<Rightarrow> day \<Rightarrow> int \<Rightarrow> world \<Rightarrow> world" where
  "upsert_detection_count t loc d n w =
     w\<lparr>daily_stats := (daily_stats w)((loc, d) \<mapsto>
        (case daily_stats w (loc, d) of
           None \<Rightarrow> (default_stats t)\<lparr>detection_count := n\<rparr>
         | Some r \<Rightarrow> r\<lparr>detection_count := detection_count r + n, s_updated_at := t\<rparr>))\<rparr>"

text \<open>
  \<^verbatim>\<open>INSERT INTO daily_stats (location_id, date, total_alerts) VALUES ($1, $2, 1)
  ON CONFLICT (location_id, date) DO UPDATE SET
  total_alerts = daily_stats.total_alerts + 1, updated_at = NOW()\<close>
\<close>

definition upsert_total_alerts :: "instant \<Rightarrow> uuid \<Rightarrow> day \<Rightarrow> world \<Rightarrow> world" where
  "upsert_total_alerts t loc d w =
     w\<lparr>daily_stats := (daily_stats w)((loc, d) \<mapsto>
        (case daily_stats w (loc, d) of
           None \<Rightarrow> (default_stats t)\<lparr>total_alerts := 1\<rparr>
         | Some r \<Rightarrow> r\<lparr>total_alerts := total_alerts r + 1, s_updated_at := t\<rparr>))\<rparr>"

subsection \<open>Publishing\<close>

text \<open>
  One \<^verbatim>\<open>emit\<close>: \<open>None\<close> when it throws, the world with the emission logged
  otherwise. A sequence of emissions stops at the first that throws; those before it
  have been sent.
\<close>

definition emit :: "(emission \<Rightarrow> bool) \<Rightarrow> emission \<Rightarrow> world \<Rightarrow> world option" where
  "emit srv m w = (if srv m then None else Some (w\<lparr>emitted := emitted w @ [m]\<rparr>))"

fun emit_all :: "(emission \<Rightarrow> bool) \<Rightarrow> emission list \<Rightarrow> world \<Rightarrow> world \<times> bool" where
  "emit_all srv [] w = (w, True)"
| "emit_all srv (m # ms) w =
     (case emit srv m w of None \<Rightarrow> (w, False) | Some w' \<Rightarrow> emit_all srv ms w')"

subsection \<open>\<^verbatim>\<open>postDetection\<close>: POST /api/cv/detections\<close>

text \<open>
  Lines 31 to 38: no row found leaves \<^verbatim>\<open>camUuid\<close> null and \<^verbatim>\<open>locUuid\<close> at the
  fallback; otherwise both come from the first row.
\<close>

definition resolve_camera :: "world \<Rightarrow> string option \<Rightarrow> uuid option \<times> uuid" where
  "resolve_camera w cid =
     (case select_camera w cid of
        [] \<Rightarrow> (None, fallback_location)
      | r # _ \<Rightarrow> (Some (fst r), snd r))"

text \<open>The parameters of the \<^verbatim>\<open>INSERT INTO cv_detections\<close>, as the row they make.\<close>

definition new_detection ::
  "env \<Rightarrow> detection_body \<Rightarrow> detected_object list \<Rightarrow> uuid option \<Rightarrow> uuid \<Rightarrow> detection_row" where
  "new_detection e b dets camUuid locUuid =
     \<lparr>d_id = new_id e,
      d_camera_id = camUuid,
      d_location_id = locUuid,
      d_frame_number = int_or (frame_number b) 0,
      d_detections = dets,
      d_detection_count = int (length dets),
      d_snapshot_b64 = str_or_null (snapshot_b64 b),
      d_timestamp = timestamp b,
      d_created_at = now e\<rparr>"

definition detection_emissions ::
  "detection_body \<Rightarrow> detected_object list \<Rightarrow> uuid \<Rightarrow> emission list" where
  "detection_emissions b dets locUuid =
     (let payload = DetectionPayload
            \<lparr>de_camera_id = camera_id b, de_location_id = locUuid,
             de_timestamp = timestamp b, de_objects = dets, de_fps = num_or (fps b) 15\<rparr>
      in [\<lparr>to_room = Room (''location:'' @ locUuid), event = ''detection'', data = payload\<rparr>,
          \<lparr>to_room = Everyone, event = ''detection'', data = payload\<rparr>])"

text \<open>
  The handler. \<^verbatim>\<open>!detections\<close> is the case \<open>None\<close> (an empty array is truthy);
  the four checks of line 17 give the same response and have no effect, so their order
  does not matter. The inner \<^verbatim>\<open>try/catch\<close> of lines 74 to 88 swallows a throwing
  \<^verbatim>\<open>emit\<close>; everything else that throws reaches the outer \<^verbatim>\<open>catch\<close> and the
  status 500, with the statements already executed left in place (the handler opens no
  transaction). The \<^verbatim>\<open>console\<close> calls have no effect on the state and are left out.
\<close>

definition postDetection :: "env \<Rightarrow> world \<Rightarrow> detection_body \<Rightarrow> world \<times> response" where
  "postDetection e w b =
     (case detections b of
        None \<Rightarrow> (w, missing_fields)
      | Some dets \<Rightarrow>
          if \<not> truthy_str (camera_id b) \<or> \<not> truthy_str (location_id b)
             \<or> \<not> truthy_time (timestamp b)
          then (w, missing_fields)
          else if db_throws e w (SelectCamera (camera_id b)) then (w, internal_error)
          else
            let camUuid = fst (resolve_camera w (camera_id b));
                locUuid = snd (resolve_camera w (camera_id b));
                row = new_detection e b dets camUuid locUuid
            in if db_throws e w (InsertDetection row) then (w, internal_error)
               else
                 let w1 = w\<lparr>cv_detections := cv_detections w @ [row]\<rparr>
                 in (case date_str (timestamp b) of
                      None \<Rightarrow> (w1, internal_error)
                    | Some dateStr \<Rightarrow>
                        if db_throws e w1 (UpsertDetectionCount locUuid dateStr (int (length dets)))
                        then (w1, internal_error)
                        else
                          let w2 = upsert_detection_count (now e) locUuid dateStr
                                     (int (length dets)) w1;
                              w3 = (case io e of
                                      None \<Rightarrow> w2
                                    | Some srv \<Rightarrow>
                                        fst (emit_all srv (detection_emissions b dets locUuid) w2))
                          in (w3, respond 201 (Created (d_id row)))))"

subsection \<open>\<^verbatim>\<open>postAlert\<close>: POST /api/cv/alerts\<close>

definition resolve_camera_tenant :: "world \<Rightarrow> string option \<Rightarrow> uuid option \<times> uuid \<times> uuid option" where
  "resolve_camera_tenant w cid =
     (case select_camera_tenant w cid of
        [] \<Rightarrow> (None, fallback_location, None)
      | r # _ \<Rightarrow> (Some (fst r), fst (snd r), Some (snd (snd r))))"

text \<open>
  Line 152: \<^verbatim>\<open>confidence >= 0.8 ? "high" : confidence >= 0.5 ? "medium" : "low"\<close>.
  An absent confidence is \<^verbatim>\<open>undefined\<close> (NaN in a comparison) or \<^verbatim>\<open>null\<close> (0 in a
  comparison): neither reaches a positive threshold.
\<close>

definition severity_of :: "rat option \<Rightarrow> string" where
  "severity_of c =
     (case c of
        None \<Rightarrow> ''low''
      | Some x \<Rightarrow> if x \<ge> 8 / 10 then ''high'' else if x \<ge> 5 / 10 then ''medium'' else ''low'')"

text \<open>The parameters of the \<^verbatim>\<open>INSERT INTO alerts\<close>, as the row they make.\<close>

definition new_alert :: "env \<Rightarrow> alert_body \<Rightarrow> uuid option \<Rightarrow> uuid \<Rightarrow> alert_row" where
  "new_alert e b camUuid locUuid =
     \<lparr>a_id = new_id e,
      a_camera_id = camUuid,
      a_location_id = locUuid,
      a_type = ''non_scan'',
      a_severity = severity_of (confidence b),
      a_track_id = int_or_null (track_id b),
      a_class_name = str_or_null (class_name b),
      a_confidence = num_or_null (confidence b),
      a_bbox = bbox b,
      a_snapshot_url = None,
      a_snapshot_b64 = str_or_null (snapshot_b64 b),
      a_description = str_or_null (description b),
      a_status = ''open'',
      a_reviewed_by = None,
      a_reviewed_at = None,
      a_created_at = now e\<rparr>"

definition alert_emissions :: "alert_body \<Rightarrow> alert_row \<Rightarrow> uuid option \<Rightarrow> emission list" where
  "alert_emissions b alert tenantId =
     (let locUuid = a_location_id alert;
          alertPayload = AlertPayload
            \<lparr>ae_id = a_id alert, ae_camera_id = camera_id b, ae_location_id = locUuid,
             ae_type = ''non_scan'', ae_track_id = track_id b, ae_class_name = class_name b,
             ae_confidence = confidence b, ae_bbox = bbox b, ae_description = description b,
             ae_snapshot_b64 =
               (case str_or_null (snapshot_b64 b) of
                  None \<Rightarrow> None
                | Some s \<Rightarrow> Some (take 100 s @ ''...'')),
             ae_created_at = a_created_at alert\<rparr>
      in (case str_or_null tenantId of
            None \<Rightarrow> []
          | Some t \<Rightarrow> [\<lparr>to_room = Room (''tenant:'' @ t), event = ''alert:new'', data = alertPayload\<rparr>])
         @ [\<lparr>to_room = Room (''location:'' @ locUuid), event = ''alert:new'', data = alertPayload\<rparr>,
            \<lparr>to_room = Everyone, event = ''alert:count_update'', data = CountUpdate locUuid\<rparr>])"

text \<open>
  The handler. Its emissions (lines 177 to 198) are not wrapped in a \<^verbatim>\<open>try\<close> of
  their own: an \<^verbatim>\<open>emit\<close> that throws reaches the outer \<^verbatim>\<open>catch\<close>.
\<close>

definition postAlert :: "env \<Rightarrow> world \<Rightarrow> alert_body \<Rightarrow> world \<times> response" where
  "postAlert e w b =
     (if \<not> truthy_str (camera_id b) \<or> \<not> truthy_str (location_id b)
         \<or> \<not> truthy_time (timestamp b)
      then (w, missing_fields)
      else if db_throws e w (SelectCameraTenant (camera_id b)) then (w, internal_error)
      else
        let camUuid = fst (resolve_camera_tenant w (camera_id b));
            locUuid = fst (snd (resolve_camera_tenant w (camera_id b)));
            tenantId = snd (snd (resolve_camera_tenant w (camera_id b)));
            alert = new_alert e b camUuid locUuid
        in if db_throws e w (InsertAlert alert) then (w, internal_error)
           else
             let w1 = w\<lparr>alerts := alerts w @ [alert]\<rparr>
             in (case date_str (timestamp b) of
                  None \<Rightarrow> (w1, internal_error)
                | Some dateStr \<Rightarrow>
                    if db_throws e w1 (UpsertTotalAlerts locUuid dateStr)
                    then (w1, internal_error)
                    else
                      let w2 = upsert_total_alerts (now e) locUuid dateStr w1
                      in (case io e of
                           None \<Rightarrow> (w2, respond 201 (Created (a_id alert)))
                         | Some srv \<Rightarrow>
                             let sent = emit_all srv (alert_emissions b alert tenantId) w2
                             in if snd sent then (fst sent, respond 201 (Created (a_id alert)))
                                else (fst sent, internal_error))))"

subsection \<open>\<^verbatim>\<open>postHeartbeat\<close>: POST /api/cv/heartbeat\<close>

record heartbeat_body =
  hb_cameras :: "int option"
  hb_active :: "int option"
  hb_uptime :: "int option"

text \<open>The handler logs the three fields and acknowledges.\<close>

definition postHeartbeat :: "env \<Rightarrow> world \<Rightarrow> heartbeat_body \<Rightarrow> world \<times> response" where
  "postHeartbeat e w b = (w, respond 200 Ack)"

subsection \<open>\<^verbatim>\<open>updateAlert\<close>: PATCH /api/cv/alerts/:id\<close>

definition validStatuses :: "string list" where
  "validStatuses = [''open'', ''reviewed'', ''dismissed'', ''resolved'']"

fun join :: "string \<Rightarrow> string list \<Rightarrow> string" where
  "join sep [] = []"
| "join sep [x] = x"
| "join sep (x # y # ys) = x @ sep @ join sep (y # ys)"

definition invalid_status :: response where
  "invalid_status =
     respond 400 (Error (''Invalid status. Must be one of: '' @ join '', '' validStatuses))"

text \<open>
  The \<^verbatim>\<open>SET\<close> clause of the \<^verbatim>\<open>UPDATE alerts\<close>:
  \<^verbatim>\<open>status = COALESCE($1, status), reviewed_by = COALESCE($2, reviewed_by),
  reviewed_at = CASE WHEN $1 IN ('reviewed','dismissed','resolved') THEN NOW()
  ELSE reviewed_at END\<close>.
\<close>

definition set_alert :: "instant \<Rightarrow> string option \<Rightarrow> string option \<Rightarrow> alert_row \<Rightarrow> alert_row" where
  "set_alert t s rb a =
     a\<lparr>a_status := (case s of None \<Rightarrow> a_status a | Some v \<Rightarrow> v),
       a_reviewed_by := (case rb of None \<Rightarrow> a_reviewed_by a | Some u \<Rightarrow> Some u),
       a_reviewed_at :=
         (if s = Some ''reviewed'' \<or> s = Some ''dismissed'' \<or> s = Some ''resolved''
          then Some t else a_reviewed_at a)\<rparr>"

text \<open>
  \<^verbatim>\<open>UPDATE daily_stats SET f = f + 1, updated_at = NOW() WHERE location_id = $1 AND
  date = $2\<close>, where \<^verbatim>\<open>f\<close> is \<^verbatim>\<open>alerts_confirmed\<close> or \<^verbatim>\<open>alerts_reviewed\<close>. An
  \<^verbatim>\<open>UPDATE\<close> changes the rows that exist: without a row for the key, nothing.
\<close>

definition update_daily_stat :: "instant \<Rightarrow> string \<Rightarrow> uuid \<Rightarrow> day \<Rightarrow> world \<Rightarrow> world" where
  "update_daily_stat t statField loc d w =
     (case daily_stats w (loc, d) of
        None \<Rightarrow> w
      | Some r \<Rightarrow>
          w\<lparr>daily_stats := (daily_stats w)((loc, d) \<mapsto>
             (if statField = ''alerts_confirmed''
              then r\<lparr>alerts_confirmed := alerts_confirmed r + 1, s_updated_at := t\<rparr>
              else r\<lparr>alerts_reviewed := alerts_reviewed r + 1, s_updated_at := t\<rparr>))\<rparr>)"

definition updated :: "alert_row \<Rightarrow> response" where
  "updated a = respond 200 (Updated (a_id a) (a_status a) (a_reviewed_at a))"

definition updateAlert :: "env \<Rightarrow> world \<Rightarrow> update_request \<Rightarrow> world \<times> response" where
  "updateAlert e w r =
     (if truthy_str (status r) \<and> status r \<notin> Some ` set validStatuses
      then (w, invalid_status)
      else
        let s = str_or_null (status r);
            rb = str_or_null (reviewed_by r)
        in if db_throws e w (UpdateAlertRow s rb (param_id r)) then (w, internal_error)
           else
             let w1 = w\<lparr>alerts := map (\<lambda>a. if a_id a = param_id r
                                               then set_alert (now e) s rb a else a) (alerts w)\<rparr>
             in (case filter (\<lambda>a. a_id a = param_id r) (alerts w1) of
                  [] \<Rightarrow> (w1, respond 404 (Error ''Alert not found''))
                | row # _ \<Rightarrow>
                    if status r = Some ''reviewed'' \<or> status r = Some ''resolved''
                    then
                      if db_throws e w1 (SelectAlert (param_id r)) then (w1, internal_error)
                      else
                        (case filter (\<lambda>a. a_id a = param_id r) (alerts w1) of
                           [] \<Rightarrow> (w1, updated row)
                         | alertRow # _ \<Rightarrow>
                             let dateStr = utc_day (a_created_at alertRow);
                                 statField = (if status r = Some ''resolved''
                                              then ''alerts_confirmed'' else ''alerts_reviewed'')
                             in if db_throws e w1
                                     (UpdateDailyStat statField (a_location_id alertRow) dateStr)
                                then (w1, internal_error)
                                else (update_daily_stat (now e) statField
                                        (a_location_id alertRow) dateStr w1,
                                      updated row))
                    else (w1, updated row)))"

subsection \<open>\<^verbatim>\<open>apiKeyAuth\<close> and the routes of the CV engine\<close>

text \<open>\<^verbatim>\<open>String.prototype.split(",")\<close>: the empty string gives one empty piece.\<close>

fun split_comma :: "string \<Rightarrow> string list" where
  "split_comma [] = [[]]"
| "split_comma (c # cs) =
     (if c = CHR '','' then [] # split_comma cs
      else case split_comma cs of
             [] \<Rightarrow> [[c]]
           | p # ps \<Rightarrow> (c # p) # ps)"

text \<open>
  \<^verbatim>\<open>String.prototype.trim\<close>. A \<open>char\<close> is a code unit below 256; the white space
  and line terminators of JavaScript among them are tab, line feed, vertical tab, form
  feed, carriage return, space and the no-break space U+00A0. The others (U+FEFF, the
  spaces of U+1680 and U+2000 to U+3000, U+2028, U+2029) are no \<open>char\<close>: a key list
  that contains one is outside the model.
\<close>

definition is_space :: "char \<Rightarrow> bool" where
  "is_space c =
     (c \<in> set [CHR 0x09, CHR 0x0A, CHR 0x0B, CHR 0x0C, CHR 0x0D, CHR '' '', CHR 0xA0])"

definition trim :: "string \<Rightarrow> string" where
  "trim s = rev (dropWhile is_space (rev (dropWhile is_space s)))"

text \<open>
  Line 11: \<^verbatim>\<open>(process.env.CV_API_KEYS || "").split(",").map((k) => k.trim()).filter(Boolean)\<close>
\<close>

definition validKeys :: "env \<Rightarrow> string list" where
  "validKeys e =
     filter (\<lambda>k. k \<noteq> [])
       (map trim (split_comma (case cv_api_keys e of None \<Rightarrow> [] | Some s \<Rightarrow> s)))"

text \<open>
  The middleware on the header \<^verbatim>\<open>x-api-key\<close>: \<open>Some\<close> response when it answers
  itself, \<open>None\<close> when it calls \<^verbatim>\<open>next()\<close>.
\<close>

definition apiKeyAuth :: "env \<Rightarrow> string option \<Rightarrow> response option" where
  "apiKeyAuth e apiKey =
     (if \<not> truthy_str apiKey then Some (respond 401 (Error ''Missing X-API-Key header''))
      else if validKeys e = [] then Some (respond 500 (Error ''API keys not configured''))
      else if apiKey \<notin> Some ` set (validKeys e) then Some (respond 403 (Error ''Invalid API key''))
      else None)"

text \<open>
  \<^verbatim>\<open>router.post(path, apiKeyAuth, handler)\<close>: the handler runs only when the middleware
  calls \<^verbatim>\<open>next()\<close>.
\<close>

definition guarded ::
  "env \<Rightarrow> string option \<Rightarrow> (env \<Rightarrow> world \<Rightarrow> 'b \<Rightarrow> world \<times> response) \<Rightarrow> world \<Rightarrow> 'b
   \<Rightarrow> world \<times> response" where
  "guarded e apiKey handler w b =
     (case apiKeyAuth e apiKey of
        Some r \<Rightarrow> (w, r)
      | None \<Rightarrow> handler e w b)"

definition route_detections :: "env \<Rightarrow> string option \<Rightarrow> world \<Rightarrow> detection_body \<Rightarrow> world \<times> response" where
  "route_detections e apiKey = guarded e apiKey postDetection"

definition route_alerts :: "env \<Rightarrow> string option \<Rightarrow> world \<Rightarrow> alert_body \<Rightarrow> world \<times> response" where
  "route_alerts e apiKey = guarded e apiKey postAlert"

definition route_heartbeat :: "env \<Rightarrow> string option \<Rightarrow> world \<Rightarrow> heartbeat_body \<Rightarrow> world \<times> response" where
  "route_heartbeat e apiKey = guarded e apiKey postHeartbeat"

subsection \<open>Reading a counter\<close>

text \<open>The value of a counter of \<^verbatim>\<open>daily_stats\<close> for a location and a day; 0 without a row.\<close>

definition count_of :: "world \<Rightarrow> uuid \<Rightarrow> day \<Rightarrow> (stats_row \<Rightarrow> int) \<Rightarrow> int" where
  "count_of w loc d f = (case daily_stats w (loc, d) of None \<Rightarrow> 0 | Some r \<Rightarrow> f r)"

subsection \<open>A shop, its camera and some requests\<close>

text \<open>Identifiers of rows, as \<^verbatim>\<open>uuid_generate_v4()\<close> makes them.\<close>

definition acme :: uuid where
  "acme = ''0b9c2f6e-5a1d-4c3b-8e7f-1a2b3c4d5e6f''"

definition berlin :: uuid where
  "berlin = ''7d0c8a52-3f1e-4b6a-9c2d-5e8f1a2b3c4d''"

definition camera_1 :: uuid where
  "camera_1 = ''a1b2c3d4-0001-4000-8000-000000000001''"

definition alert_1 :: uuid where
  "alert_1 = ''a1b2c3d4-0002-4000-8000-000000000002''"

definition detection_1 :: uuid where
  "detection_1 = ''a1b2c3d4-0003-4000-8000-000000000003''"

definition record_1 :: uuid where
  "record_1 = ''a1b2c3d4-0004-4000-8000-000000000004''"

definition reviewer_9 :: uuid where
  "reviewer_9 = ''a1b2c3d4-0009-4000-8000-000000000009''"

text \<open>A store that accepts every statement.\<close>

definition store_up :: "world \<Rightarrow> query \<Rightarrow> bool" where
  "store_up w q = False"

text \<open>
  Two locations of one tenant (the fallback location and \<open>berlin\<close>), one camera
  registered at \<open>berlin\<close>, no events yet. Day 20000 starts at the instant
  1728000000000.
\<close>

definition shop :: world where
  "shop =
     \<lparr>locations = [\<lparr>l_id = fallback_location, l_tenant_id = acme\<rparr>,
                  \<lparr>l_id = berlin, l_tenant_id = acme\<rparr>],
      cameras = [\<lparr>c_id = camera_1, c_location_id = berlin,
                 c_camera_id = ''iphone-wifi''\<rparr>],
      cv_detections = [], alerts = [], daily_stats = (\<lambda>k. None), emitted = []\<rparr>"

definition request_env :: "instant \<Rightarrow> uuid \<Rightarrow> (emission \<Rightarrow> bool) option \<Rightarrow> env" where
  "request_env t i srv =
     \<lparr>now = t, new_id = i, io = srv, db_throws = store_up,
      cv_api_keys = Some ''secret-a, secret-b''\<rparr>"

definition person :: detected_object where
  "person = \<lparr>o_class_id = 0, o_class_name = ''person'', o_confidence = 9 / 10,
             o_bbox = [0, 0, 10, 10], o_track_id = Some 7\<rparr>"

text \<open>A detection stamped one second before midnight UTC, at the end of day 19999.\<close>

definition late_detection :: detection_body where
  "late_detection =
     \<lparr>camera_id = Some ''iphone-wifi'', location_id = Some ''loc-01'',
      timestamp = TimeAt 1727999999000, snapshot_b64 = None,
      frame_number = Some 12, detections = Some [person, person], fps = None\<rparr>"

text \<open>
  An alert of the registered or of an unknown camera, with the instant of its timestamp and
  its confidence.
\<close>

definition bottle_alert :: "string \<Rightarrow> instant \<Rightarrow> rat option \<Rightarrow> alert_body" where
  "bottle_alert cam t c =
     \<lparr>camera_id = Some cam, location_id = Some ''loc-01'',
      timestamp = TimeAt t, snapshot_b64 = None,
      track_id = Some 7, class_name = Some ''bottle'', confidence = c,
      bbox = Some [1, 2, 3, 4], description = None\<rparr>"

text \<open>
  The shop after one alert of its camera, stamped \<open>t\<close> and handled half a second after
  the midnight that starts day 20000: the alert is created on day 20000.
\<close>

definition shop_with_alert :: "instant \<Rightarrow> world" where
  "shop_with_alert t =
     fst (postAlert (request_env 1728000000500 alert_1 None) shop
            (bottle_alert ''iphone-wifi'' t (Some (92 / 100))))"

definition resolve_request :: update_request where
  "resolve_request = \<lparr>param_id = alert_1, status = Some ''resolved'', reviewed_by = None\<rparr>"

text \<open>The alert resolved a quarter of an hour later, and once more after another quarter.\<close>

definition resolved_once :: "instant \<Rightarrow> world \<times> response" where
  "resolved_once t =
     updateAlert (request_env 1728000900000 [] None) (shop_with_alert t) resolve_request"

definition resolved_twice :: "instant \<Rightarrow> world \<times> response" where
  "resolved_twice t =
     updateAlert (request_env 1728001800000 [] None) (fst (resolved_once t)) resolve_request"

definition blank_status_request :: update_request where
  "blank_status_request =
     \<lparr>param_id = alert_1, status = Some [], reviewed_by = Some reviewer_9\<rparr>"

definition closed_request :: update_request where
  "closed_request =
     \<lparr>param_id = alert_1, status = Some ''closed'', reviewed_by = Some reviewer_9\<rparr>"

text \<open>A Socket.IO server on which every \<^verbatim>\<open>emit\<close> throws.\<close>

definition io_down :: "emission \<Rightarrow> bool" where
  "io_down m = True"

text \<open>The alert of the shop and the late detection, each handled while that server is down.\<close>

definition alert_while_io_down :: "world \<times> response" where
  "alert_while_io_down =
     postAlert (request_env 1728000000500 alert_1 (Some io_down)) shop
       (bottle_alert ''iphone-wifi'' 1728000000000 (Some (92 / 100)))"

definition detection_while_io_down :: "world \<times> response" where
  "detection_while_io_down =
     postDetection (request_env 1728000000500 detection_1 (Some io_down)) shop late_detection"

text \<open>A detection of a camera that is not registered.\<close>

definition ghost_detection :: detection_body where
  "ghost_detection = late_detection\<lparr>camera_id := Some ''ghost-cam''\<rparr>"

text \<open>
  The shop as the seed script leaves its locations: the tenant has the one location the
  script inserts, under a generated identifier, and no row carries the identifier the
  handlers fall back to. The store enforces its foreign keys.
\<close>

definition seeded_shop :: world where
  "seeded_shop = shop\<lparr>locations := [\<lparr>l_id = berlin, l_tenant_id = acme\<rparr>]\<rparr>"

definition keyed_env :: "instant \<Rightarrow> uuid \<Rightarrow> env" where
  "keyed_env t i = (request_env t i None)\<lparr>db_throws := foreign_keys\<rparr>"

text \<open>
  A detection and an alert of the unknown camera, and of the registered one, each sent to
  the seeded shop.
\<close>

definition ghost_detection_seeded :: "world \<times> response" where
  "ghost_detection_seeded =
     postDetection (keyed_env 1728000000500 record_1) seeded_shop ghost_detection"

definition ghost_alert_seeded :: "world \<times> response" where
  "ghost_alert_seeded =
     postAlert (keyed_env 1728000000500 record_1) seeded_shop
       (bottle_alert ''ghost-cam'' 1728000000000 (Some (92 / 100)))"

definition known_detection_seeded :: "world \<times> response" where
  "known_detection_seeded =
     postDetection (keyed_env 1728000000500 record_1) seeded_shop late_detection"

definition known_alert_seeded :: "world \<times> response" where
  "known_alert_seeded =
     postAlert (keyed_env 1728000000500 record_1) seeded_shop
       (bottle_alert ''iphone-wifi'' 1728000000000 (Some (92 / 100)))"

text \<open>A process started without \<^verbatim>\<open>CV_API_KEYS\<close>.\<close>

definition unconfigured_env :: env where
  "unconfigured_env = (request_env 1728000000500 detection_1 None)\<lparr>cv_api_keys := None\<rparr>"

definition idle_heartbeat :: heartbeat_body where
  "idle_heartbeat = \<lparr>hb_cameras = Some 1, hb_active = Some 0, hb_uptime = Some 60\<rparr>"

section \<open>Properties\<close>

subsection \<open>Auxiliary facts\<close>

lemma http_status_simps [simp]:
  "http_status (respond s b) = s"
  "http_status internal_error = 500"
  "http_status missing_fields = 400"
  "http_status invalid_status = 400"
  by (simp_all add: respond_def internal_error_def missing_fields_def invalid_status_def)

lemma date_str_Some: "date_str x = Some d \<longleftrightarrow> (\<exists>t. x = TimeAt t \<and> d = utc_day t)"
  by (cases x) auto

text \<open>Publishing touches no table; a server that never throws sends everything.\<close>

lemma emit_all_tables:
  "locations (fst (emit_all srv ms w)) = locations w"
  "cameras (fst (emit_all srv ms w)) = cameras w"
  "cv_detections (fst (emit_all srv ms w)) = cv_detections w"
  "alerts (fst (emit_all srv ms w)) = alerts w"
  "daily_stats (fst (emit_all srv ms w)) = daily_stats w"
  by (induction ms arbitrary: w; simp add: emit_def)+

lemma emit_all_sent: "\<forall>m. \<not> srv m \<Longrightarrow> snd (emit_all srv ms w)"
  by (induction ms arbitrary: w) (simp_all add: emit_def)

lemma upsert_detection_count_at:
  "daily_stats (upsert_detection_count t loc d n w) k =
     (if k = (loc, d)
      then Some (case daily_stats w (loc, d) of
                   None \<Rightarrow> (default_stats t)\<lparr>detection_count := n\<rparr>
                 | Some r \<Rightarrow> r\<lparr>detection_count := detection_count r + n, s_updated_at := t\<rparr>)
      else daily_stats w k)"
  by (simp add: upsert_detection_count_def)

lemma upsert_total_alerts_tables:
  "alerts (upsert_total_alerts t loc d w) = alerts w"
  "cv_detections (upsert_total_alerts t loc d w) = cv_detections w"
  by (simp_all add: upsert_total_alerts_def)

text \<open>What a detection request answered with 201 has done.\<close>

lemma postDetection_created:
  assumes "postDetection e w b = (w', r)" and "http_status r = 201"
  shows "\<exists>dets t. detections b = Some dets \<and> timestamp b = TimeAt t
           \<and> truthy_str (camera_id b) \<and> truthy_str (location_id b)
           \<and> r = respond 201 (Created (new_id e))
           \<and> cv_detections w' = cv_detections w @
                [new_detection e b dets (fst (resolve_camera w (camera_id b)))
                   (snd (resolve_camera w (camera_id b)))]
           \<and> alerts w' = alerts w
           \<and> daily_stats w' = daily_stats (upsert_detection_count (now e)
                (snd (resolve_camera w (camera_id b))) (utc_day t) (int (length dets)) w)"
  using assms unfolding postDetection_def Let_def
  by (auto split: option.splits if_splits
           simp: date_str_Some emit_all_tables upsert_detection_count_def new_detection_def)

text \<open>
  The inner \<^verbatim>\<open>try/catch\<close> of \<^verbatim>\<open>postDetection\<close>: whatever the Socket.IO server does,
  the response and the tables are those of a request without a server.
\<close>

lemma postDetection_fanout_swallowed:
  "snd (postDetection (e\<lparr>io := Some srv\<rparr>) w b) = snd (postDetection (e\<lparr>io := None\<rparr>) w b)"
  "cv_detections (fst (postDetection (e\<lparr>io := Some srv\<rparr>) w b))
     = cv_detections (fst (postDetection (e\<lparr>io := None\<rparr>) w b))"
  "daily_stats (fst (postDetection (e\<lparr>io := Some srv\<rparr>) w b))
     = daily_stats (fst (postDetection (e\<lparr>io := None\<rparr>) w b))"
  by (simp_all add: postDetection_def Let_def new_detection_def emit_all_tables
        split: option.splits)

text \<open>The alerts table after an alert request: unchanged, or one row longer.\<close>

lemma postAlert_alerts:
  "alerts (fst (postAlert e w b)) = alerts w
   \<or> alerts (fst (postAlert e w b)) = alerts w @
        [new_alert e b (fst (resolve_camera_tenant w (camera_id b)))
           (fst (snd (resolve_camera_tenant w (camera_id b))))]"
  unfolding postAlert_def Let_def
  by (simp add: emit_all_tables upsert_total_alerts_tables split: option.splits)

lemma postAlert_created:
  assumes "postAlert e w b = (w', r)" and "http_status r = 201"
  shows "\<exists>t. timestamp b = TimeAt t
           \<and> truthy_str (camera_id b) \<and> truthy_str (location_id b)
           \<and> r = respond 201 (Created (new_id e))
           \<and> alerts w' = alerts w @
                [new_alert e b (fst (resolve_camera_tenant w (camera_id b)))
                   (fst (snd (resolve_camera_tenant w (camera_id b))))]
           \<and> cv_detections w' = cv_detections w
           \<and> daily_stats w' = daily_stats (upsert_total_alerts (now e)
                (fst (snd (resolve_camera_tenant w (camera_id b)))) (utc_day t) w)"
  using assms unfolding postAlert_def Let_def
  by (auto split: option.splits if_splits
           simp: date_str_Some emit_all_tables upsert_total_alerts_def new_alert_def)

lemma stored_alert:
  assumes "postAlert e w b = (w', r)" and "alerts w' = alerts w @ [a]"
  shows "a = new_alert e b (fst (resolve_camera_tenant w (camera_id b)))
               (fst (snd (resolve_camera_tenant w (camera_id b))))"
proof -
  have "w' = fst (postAlert e w b)"
    using assms(1) by simp
  then show ?thesis
    using postAlert_alerts [of e w b] assms(2) by auto
qed

text \<open>No camera row carries the identifier: both look-ups fall back.\<close>

lemma no_camera_matches:
  assumes "\<forall>c\<in>set (cameras w). Some (c_camera_id c) \<noteq> cid"
  shows "resolve_camera w cid = (None, fallback_location)"
    and "resolve_camera_tenant w cid = (None, fallback_location, None)"
proof -
  have "filter (\<lambda>c. Some (c_camera_id c) = cid) (cameras w) = []"
    using assms by (simp add: filter_empty_conv)
  then show "resolve_camera w cid = (None, fallback_location)"
    and "resolve_camera_tenant w cid = (None, fallback_location, None)"
    by (simp_all add: resolve_camera_def select_camera_def
          resolve_camera_tenant_def select_camera_tenant_def)
qed

text \<open>The store that enforces the foreign keys, statement by statement.\<close>

lemma foreign_keys_simps:
  "foreign_keys w (SelectCamera c) = False"
  "foreign_keys w (SelectCameraTenant c) = False"
  "foreign_keys w (InsertDetection row) =
     (d_location_id row \<notin> l_id ` set (locations w)
      \<or> (\<exists>c. d_camera_id row = Some c \<and> c \<notin> c_id ` set (cameras w)))"
  "foreign_keys w (InsertAlert arow) =
     (a_location_id arow \<notin> l_id ` set (locations w)
      \<or> (\<exists>c. a_camera_id arow = Some c \<and> c \<notin> c_id ` set (cameras w)))"
  "foreign_keys w (UpsertDetectionCount loc d n) = (loc \<notin> l_id ` set (locations w))"
  "foreign_keys w (UpsertTotalAlerts loc d) = (loc \<notin> l_id ` set (locations w))"
  by (auto simp: foreign_keys_def split: option.splits)

text \<open>
  An unknown camera on that store. With a row of \<^verbatim>\<open>locations\<close> under the fallback
  identifier, each request appends its row, with a null camera and the fallback location,
  and is answered with 201 when its timestamp is a date (and, for an alert, no
  \<^verbatim>\<open>emit\<close> throws).
\<close>

lemma unknown_camera_stored_given_fallback:
  assumes "db_throws e = foreign_keys"
      and "fallback_location \<in> l_id ` set (locations w)"
      and "\<forall>c\<in>set (cameras w). Some (c_camera_id c) \<noteq> camera_id d"
      and "truthy_str (camera_id d)" and "truthy_str (location_id d)"
      and "truthy_time (timestamp d)" and "detections d = Some dets"
      and "\<forall>c\<in>set (cameras w). Some (c_camera_id c) \<noteq> camera_id a"
      and "truthy_str (camera_id a)" and "truthy_str (location_id a)"
      and "truthy_time (timestamp a)"
  shows "(\<exists>row. cv_detections (fst (postDetection e w d)) = cv_detections w @ [row]
            \<and> d_id row = new_id e \<and> d_camera_id row = None
            \<and> d_location_id row = fallback_location)
       \<and> (date_str (timestamp d) \<noteq> None
            \<longrightarrow> snd (postDetection e w d) = respond 201 (Created (new_id e)))
       \<and> (\<exists>row. alerts (fst (postAlert e w a)) = alerts w @ [row]
            \<and> a_id row = new_id e \<and> a_camera_id row = None
            \<and> a_location_id row = fallback_location)
       \<and> (date_str (timestamp a) \<noteq> None \<and> (\<forall>srv m. io e = Some srv \<longrightarrow> \<not> srv m)
            \<longrightarrow> snd (postAlert e w a) = respond 201 (Created (new_id e)))"
proof -
  note fk = assms(1) foreign_keys_simps assms(2)
  have det: "cv_detections (fst (postDetection e w d))
               = cv_detections w @ [new_detection e d dets None fallback_location]"
    using assms(4,5,6,7)
    by (simp add: postDetection_def Let_def no_camera_matches(1) [OF assms(3)] fk
          new_detection_def emit_all_tables upsert_detection_count_def split: option.splits)
  have det_ok: "snd (postDetection e w d) = respond 201 (Created (new_id e))"
    if "date_str (timestamp d) \<noteq> None"
    using that assms(4,5,6,7)
    by (auto simp: postDetection_def Let_def no_camera_matches(1) [OF assms(3)] fk
          new_detection_def split: option.splits)
  have al: "alerts (fst (postAlert e w a)) = alerts w @ [new_alert e a None fallback_location]"
    using assms(9,10,11)
    by (simp add: postAlert_def Let_def no_camera_matches(2) [OF assms(8)] fk
          new_alert_def emit_all_tables upsert_total_alerts_def split: option.splits)
  have al_ok: "snd (postAlert e w a) = respond 201 (Created (new_id e))"
    if "date_str (timestamp a) \<noteq> None" and "\<forall>srv m. io e = Some srv \<longrightarrow> \<not> srv m"
    using that assms(9,10,11)
    by (auto simp: postAlert_def Let_def no_camera_matches(2) [OF assms(8)] fk
          new_alert_def emit_all_sent split: option.splits)
  show ?thesis
    using det det_ok al al_ok by (auto simp: new_detection_def new_alert_def)
qed

text \<open>Without such a row the first insert is refused: 500, and the state is the one before.\<close>

lemma unknown_camera_refused_without_fallback:
  assumes "db_throws e = foreign_keys"
      and "fallback_location \<notin> l_id ` set (locations w)"
      and "\<forall>c\<in>set (cameras w). Some (c_camera_id c) \<noteq> camera_id d"
      and "truthy_str (camera_id d)" and "truthy_str (location_id d)"
      and "truthy_time (timestamp d)" and "detections d = Some dets"
      and "\<forall>c\<in>set (cameras w). Some (c_camera_id c) \<noteq> camera_id a"
      and "truthy_str (camera_id a)" and "truthy_str (location_id a)"
      and "truthy_time (timestamp a)"
  shows "postDetection e w d = (w, internal_error) \<and> postAlert e w a = (w, internal_error)"
  using assms(2,4,5,6,7,9,10,11)
  by (simp add: postDetection_def postAlert_def Let_def no_camera_matches(1) [OF assms(3)]
        no_camera_matches(2) [OF assms(8)] assms(1) foreign_keys_simps
        new_detection_def new_alert_def)

text \<open>None of the parameters and payloads is built from the \<^verbatim>\<open>location_id\<close> of the body.\<close>

lemma hint_unused:
  "new_detection e (d\<lparr>location_id := h\<rparr>) dets c l = new_detection e d dets c l"
  "detection_emissions (d\<lparr>location_id := h\<rparr>) dets l = detection_emissions d dets l"
  "new_alert e (a\<lparr>location_id := h\<rparr>) c l = new_alert e a c l"
  "alert_emissions (a\<lparr>location_id := h\<rparr>) row t = alert_emissions a row t"
  by (simp_all add: new_detection_def detection_emissions_def new_alert_def alert_emissions_def)

text \<open>The \<^verbatim>\<open>UPDATE alerts\<close> and the \<^verbatim>\<open>UPDATE daily_stats\<close>, row by row.\<close>

lemma filter_set_alert:
  "filter (\<lambda>x. a_id x = i) (map (\<lambda>x. if a_id x = i then set_alert t s rb x else x) xs)
     = map (set_alert t s rb) (filter (\<lambda>x. a_id x = i) xs)"
  by (induction xs) (auto simp: set_alert_def)

lemma set_alert_keeps [simp]:
  "a_id (set_alert t s rb a) = a_id a"
  "a_location_id (set_alert t s rb a) = a_location_id a"
  "a_created_at (set_alert t s rb a) = a_created_at a"
  by (simp_all add: set_alert_def)

lemma update_daily_stat_at:
  "daily_stats (update_daily_stat t f loc d w) k =
     (if k = (loc, d)
      then map_option (\<lambda>r. if f = ''alerts_confirmed''
                              then r\<lparr>alerts_confirmed := alerts_confirmed r + 1, s_updated_at := t\<rparr>
                              else r\<lparr>alerts_reviewed := alerts_reviewed r + 1, s_updated_at := t\<rparr>)
             (daily_stats w k)
      else daily_stats w k)"
  by (auto simp: update_daily_stat_def split: option.splits)

text \<open>
  One successful PATCH with the status \<^verbatim>\<open>resolved\<close> or \<^verbatim>\<open>reviewed\<close>, on an
  alert that exists: the matching rows are updated, and the row of \<^verbatim>\<open>daily_stats\<close>
  for the location and the creation date of the first of them, if there is such a row,
  gets one more confirmed or reviewed alert. Without such a row no row changes.
\<close>

lemma updateAlert_counted_step:
  assumes "status r = Some s" and "s = ''resolved'' \<or> s = ''reviewed''"
      and "updateAlert e w r = (w', resp)" and "http_status resp = 200"
      and "filter (\<lambda>x. a_id x = param_id r) (alerts w) = a # rest"
  shows "filter (\<lambda>x. a_id x = param_id r) (alerts w')
           = map (set_alert (now e) (Some s) (str_or_null (reviewed_by r))) (a # rest)"
    and "\<And>k. daily_stats w' k =
           (if k = (a_location_id a, utc_day (a_created_at a))
            then map_option
                   (\<lambda>x. if s = ''resolved''
                        then x\<lparr>alerts_confirmed := alerts_confirmed x + 1, s_updated_at := now e\<rparr>
                        else x\<lparr>alerts_reviewed := alerts_reviewed x + 1, s_updated_at := now e\<rparr>)
                   (daily_stats w k)
            else daily_stats w k)"
proof -
  let ?rb = "str_or_null (reviewed_by r)"
  let ?w1 = "w\<lparr>alerts := map (\<lambda>x. if a_id x = param_id r
                                    then set_alert (now e) (Some s) ?rb x else x)
                          (alerts w)\<rparr>"
  let ?a' = "set_alert (now e) (Some s) ?rb a"
  let ?L = "a_location_id a" and ?D = "utc_day (a_created_at a)"
  let ?f = "if s = ''resolved'' then ''alerts_confirmed'' else ''alerts_reviewed''"
  have st: "str_or_null (status r) = Some s" "truthy_str (status r)"
    "status r \<in> Some ` set validStatuses"
    "status r = Some ''reviewed'' \<or> status r = Some ''resolved''"
    "(status r = Some ''resolved'') = (s = ''resolved'')"
    using assms(1,2) by (auto simp: str_or_null_def truthy_str_def validStatuses_def)
  have found: "filter (\<lambda>x. a_id x = param_id r) (alerts ?w1)
                 = ?a' # map (set_alert (now e) (Some s) ?rb) rest"
    by (simp add: filter_set_alert assms(5))
  have run: "updateAlert e w r =
      (if db_throws e w (UpdateAlertRow (Some s) ?rb (param_id r))
       then (w, internal_error)
       else if db_throws e ?w1 (SelectAlert (param_id r)) then (?w1, internal_error)
       else if db_throws e ?w1 (UpdateDailyStat ?f ?L ?D)
       then (?w1, internal_error)
       else (update_daily_stat (now e) ?f ?L ?D ?w1, updated ?a'))"
    unfolding updateAlert_def Let_def st(1)
    using st(2,3,4,5) found by simp
  have w': "w' = update_daily_stat (now e) ?f ?L ?D ?w1"
    using assms(3,4) unfolding run by (auto split: if_splits)
  have keep: "alerts (update_daily_stat t f l d v) = alerts v" for t f l d v
    by (simp add: update_daily_stat_def split: option.splits)
  show "filter (\<lambda>x. a_id x = param_id r) (alerts w')
           = map (set_alert (now e) (Some s) ?rb) (a # rest)"
    unfolding w' keep using found by simp
  show "daily_stats w' k =
           (if k = (?L, ?D)
            then map_option
                   (\<lambda>x. if s = ''resolved''
                        then x\<lparr>alerts_confirmed := alerts_confirmed x + 1, s_updated_at := now e\<rparr>
                        else x\<lparr>alerts_reviewed := alerts_reviewed x + 1, s_updated_at := now e\<rparr>)
                   (daily_stats w k)
            else daily_stats w k)" for k
    unfolding w' by (simp add: update_daily_stat_at)
qed

text \<open>The shop resolves its camera; the late detection, computed.\<close>

lemma shop_resolves: "resolve_camera shop (Some ''iphone-wifi'') = (Some camera_1, berlin)"
  by (simp add: resolve_camera_def select_camera_def shop_def)

lemma late_detection_result:
  "postDetection (request_env 1728000000500 detection_1 None) shop late_detection =
     (upsert_detection_count 1728000000500 berlin 19999 2
        (shop\<lparr>cv_detections :=
           [new_detection (request_env 1728000000500 detection_1 None) late_detection
              [person, person] (Some camera_1) berlin]\<rparr>),
      respond 201 (Created detection_1))"
  by (simp add: postDetection_def late_detection_def request_env_def store_up_def truthy_str_def
        shop_resolves utc_day_def Let_def new_detection_def)
     (simp add: shop_def)

subsection \<open>C1: detections and the daily count\<close>

text \<open>
  Claim C1, as the code has it. A detection request answered with 201 carried an array
  \<^verbatim>\<open>detections\<close> and a timestamp that \<^verbatim>\<open>Date\<close> could read. Afterwards the row of
  \<^verbatim>\<open>daily_stats\<close> for the resolved location and the UTC calendar date of that
  timestamp exists, its \<^verbatim>\<open>detection_count\<close> is the former one (0 without a row) plus
  the length of the array, and no other row has changed. The date is the one of the
  request's timestamp, not the one of the clock.
\<close>

theorem postDetection_detection_count:
  assumes "postDetection e w b = (w', r)" and "http_status r = 201"
  shows "\<exists>dets t. detections b = Some dets \<and> timestamp b = TimeAt t
           \<and> daily_stats w' (snd (resolve_camera w (camera_id b)), utc_day t) \<noteq> None
           \<and> count_of w' (snd (resolve_camera w (camera_id b))) (utc_day t) detection_count =
               count_of w (snd (resolve_camera w (camera_id b))) (utc_day t) detection_count
                 + int (length dets)
           \<and> (\<forall>k. k \<noteq> (snd (resolve_camera w (camera_id b)), utc_day t)
                  \<longrightarrow> daily_stats w' k = daily_stats w k)"
proof -
  from postDetection_created [OF assms] obtain dets t where
    d: "detections b = Some dets" and t: "timestamp b = TimeAt t" and
    s: "daily_stats w' = daily_stats (upsert_detection_count (now e)
          (snd (resolve_camera w (camera_id b))) (utc_day t) (int (length dets)) w)"
    by blast
  show ?thesis
    using d t s
    by (auto simp: upsert_detection_count_at count_of_def default_stats_def split: option.splits)
qed

text \<open>
  The theorem at work: the late detection, handled half a second after midnight, adds its
  two objects to day 19999 of the camera's location.
\<close>

theorem postDetection_detection_count_witness:
  "http_status (snd (postDetection (request_env 1728000000500 detection_1 None) shop
                       late_detection)) = 201
   \<and> count_of (fst (postDetection (request_env 1728000000500 detection_1 None) shop
                       late_detection)) berlin 19999 detection_count
       = count_of shop berlin 19999 detection_count + 2"
proof -
  let ?e = "request_env 1728000000500 detection_1 None"
  have ok: "http_status (snd (postDetection ?e shop late_detection)) = 201"
    by (simp add: late_detection_result)
  from postDetection_detection_count [OF prod.collapse [symmetric] ok]
  show ?thesis using ok
    by (auto simp: late_detection_def shop_resolves utc_day_def)
qed

text \<open>
  Claim C1 as stated names the current date. The same request shows the difference: the
  clock of the server is on day 20000, the request succeeds, day 20000 of the location
  has no row afterwards, and the two objects are counted on day 19999.
\<close>

theorem postDetection_today_counterexample:
  "http_status (snd (postDetection (request_env 1728000000500 detection_1 None) shop
                       late_detection)) = 201
   \<and> utc_day (now (request_env 1728000000500 detection_1 None)) = 20000
   \<and> daily_stats (fst (postDetection (request_env 1728000000500 detection_1 None) shop
                          late_detection)) (berlin, 20000) = None
   \<and> count_of (fst (postDetection (request_env 1728000000500 detection_1 None) shop
                       late_detection)) berlin 19999 detection_count = 2"
  unfolding late_detection_result
  by (simp add: upsert_detection_count_at count_of_def default_stats_def
        request_env_def utc_day_def shop_def)

subsection \<open>C2: resolving an alert twice\<close>

text \<open>
  Claim C2, as the code has it. The request sets the status \<^verbatim>\<open>resolved\<close>; the alert
  exists (whatever its status, open in particular) and \<^verbatim>\<open>daily_stats\<close> has a row for
  its location and creation date. A first PATCH answered with 200 adds exactly 1 to
  \<^verbatim>\<open>alerts_confirmed\<close> of that row, and a second PATCH with the same status, answered
  with 200, adds 1 again: the counter follows the requests, not the alerts.
\<close>

theorem updateAlert_resolved_counts_every_call:
  assumes "status r = Some ''resolved''"
      and "filter (\<lambda>x. a_id x = param_id r) (alerts w) = a # rest"
      and "daily_stats w (a_location_id a, utc_day (a_created_at a)) \<noteq> None"
      and "updateAlert e1 w r = (w1, r1)" and "http_status r1 = 200"
      and "updateAlert e2 w1 r = (w2, r2)" and "http_status r2 = 200"
  shows "count_of w1 (a_location_id a) (utc_day (a_created_at a)) alerts_confirmed
           = count_of w (a_location_id a) (utc_day (a_created_at a)) alerts_confirmed + 1
       \<and> count_of w2 (a_location_id a) (utc_day (a_created_at a)) alerts_confirmed
           = count_of w (a_location_id a) (utc_day (a_created_at a)) alerts_confirmed + 2"
proof -
  let ?a' = "set_alert (now e1) (Some ''resolved'') (str_or_null (reviewed_by r)) a"
  have rs: "''resolved'' = ''resolved'' \<or> ''resolved'' = ''reviewed''"
    by simp
  note first = updateAlert_counted_step [OF assms(1) rs assms(4) assms(5) assms(2)]
  have found: "filter (\<lambda>x. a_id x = param_id r) (alerts w1)
                 = ?a' # map (set_alert (now e1) (Some ''resolved'')
                                (str_or_null (reviewed_by r))) rest"
    using first(1) by simp
  note second = updateAlert_counted_step [OF assms(1) rs assms(6) assms(7) found]
  from assms(3) obtain s where
    s: "daily_stats w (a_location_id a, utc_day (a_created_at a)) = Some s"
    by blast
  have one: "count_of w1 (a_location_id a) (utc_day (a_created_at a)) alerts_confirmed
               = count_of w (a_location_id a) (utc_day (a_created_at a)) alerts_confirmed + 1"
    by (simp add: count_of_def first(2) s)
  have two: "count_of w2 (a_location_id a) (utc_day (a_created_at a)) alerts_confirmed
               = count_of w1 (a_location_id a) (utc_day (a_created_at a)) alerts_confirmed + 1"
    using second(2) [of "(a_location_id a, utc_day (a_created_at a))"]
    by (simp add: count_of_def first(2) s)
  show ?thesis using one two by simp
qed

text \<open>
  The theorem at work: the alert of the shop, stamped and created on day 20000, resolved
  twice.
\<close>

theorem updateAlert_resolved_counts_every_call_witness:
  "count_of (fst (resolved_once 1728000000000)) berlin 20000 alerts_confirmed
     = count_of (shop_with_alert 1728000000000) berlin 20000 alerts_confirmed + 1
   \<and> count_of (fst (resolved_twice 1728000000000)) berlin 20000 alerts_confirmed
     = count_of (shop_with_alert 1728000000000) berlin 20000 alerts_confirmed + 2"
proof -
  let ?w = "shop_with_alert 1728000000000"
  let ?a = "hd (alerts ?w)"
  have st: "status resolve_request = Some ''resolved''"
    by (simp add: resolve_request_def)
  have a: "filter (\<lambda>x. a_id x = param_id resolve_request) (alerts ?w) = ?a # []"
    by code_simp
  have at: "a_location_id ?a = berlin" "utc_day (a_created_at ?a) = 20000"
    by code_simp+
  have row: "daily_stats ?w (a_location_id ?a, utc_day (a_created_at ?a)) \<noteq> None"
    by code_simp
  have ok: "http_status (snd (resolved_once 1728000000000)) = 200"
    "http_status (snd (resolved_twice 1728000000000)) = 200"
    by code_simp+
  have r1: "updateAlert (request_env 1728000900000 [] None) ?w resolve_request
              = (fst (resolved_once 1728000000000), snd (resolved_once 1728000000000))"
    by (simp add: resolved_once_def)
  have r2: "updateAlert (request_env 1728001800000 [] None) (fst (resolved_once 1728000000000))
              resolve_request
              = (fst (resolved_twice 1728000000000), snd (resolved_twice 1728000000000))"
    by (simp add: resolved_twice_def)
  from updateAlert_resolved_counts_every_call [OF st a row r1 ok(1) r2 ok(2)]
  show ?thesis unfolding at .
qed

text \<open>
  Claim C2 as stated wants the second call to leave the aggregate alone. On the open alert
  of the shop the first PATCH takes \<^verbatim>\<open>alerts_confirmed\<close> from 0 to 1 and the second,
  with the same status, from 1 to 2.
\<close>

theorem updateAlert_twice_counterexample:
  "map a_status (alerts (shop_with_alert 1728000000000)) = [''open'']
   \<and> count_of (shop_with_alert 1728000000000) berlin 20000 alerts_confirmed = 0
   \<and> http_status (snd (resolved_once 1728000000000)) = 200
   \<and> count_of (fst (resolved_once 1728000000000)) berlin 20000 alerts_confirmed = 1
   \<and> http_status (snd (resolved_twice 1728000000000)) = 200
   \<and> count_of (fst (resolved_twice 1728000000000)) berlin 20000 alerts_confirmed = 2"
  by code_simp

subsection \<open>C3: the aggregate row of the creation date\<close>

text \<open>
  Claim C3 wants the increment to create the row of \<^verbatim>\<open>daily_stats\<close> when it is
  absent, as the upserts of the two ingestion handlers do. \<^verbatim>\<open>updateAlert\<close> sends a
  plain \<^verbatim>\<open>UPDATE\<close>. The alert below is stamped one second before midnight, so
  \<^verbatim>\<open>postAlert\<close> counts it on day 19999, and it is created half a second after
  midnight, on day 20000. Resolving it succeeds with 200 and the alert is resolved, at
  the location \<open>berlin\<close> and created on day 20000; but day 20000 has no row, none is
  created, and no \<^verbatim>\<open>alerts_confirmed\<close> is recorded on either day.
\<close>

theorem updateAlert_row_absent:
  "http_status (snd (resolved_once 1727999999000)) = 200
   \<and> map a_status (alerts (fst (resolved_once 1727999999000))) = [''resolved'']
   \<and> map a_location_id (alerts (fst (resolved_once 1727999999000))) = [berlin]
   \<and> map (\<lambda>a. utc_day (a_created_at a)) (alerts (fst (resolved_once 1727999999000))) = [20000]
   \<and> daily_stats (fst (resolved_once 1727999999000)) (berlin, 20000) = None
   \<and> count_of (fst (resolved_once 1727999999000)) berlin 20000 alerts_confirmed = 0
   \<and> count_of (fst (resolved_once 1727999999000)) berlin 19999 alerts_confirmed = 0"
  by code_simp

subsection \<open>C4: severity from confidence\<close>

text \<open>
  Claim C4. For an alert request with the confidence \<open>c\<close>: a response 201 means one row
  was appended to \<^verbatim>\<open>alerts\<close>, under the new identifier; and whenever the request has
  appended a row, its severity is \<^verbatim>\<open>high\<close> for \<open>c \<ge> 0.8\<close>, \<^verbatim>\<open>medium\<close> for
  \<open>0.5 \<le> c < 0.8\<close> and \<^verbatim>\<open>low\<close> otherwise; in particular \<^verbatim>\<open>high\<close> at exactly 0.8
  and \<^verbatim>\<open>medium\<close> at exactly 0.5.
\<close>

theorem postAlert_severity:
  assumes "postAlert e w b = (w', r)" and "confidence b = Some c"
  shows "(http_status r = 201 \<longrightarrow> (\<exists>a. alerts w' = alerts w @ [a] \<and> a_id a = new_id e))
       \<and> (\<forall>a. alerts w' = alerts w @ [a] \<longrightarrow>
              a_severity a =
                (if c \<ge> 8 / 10 then ''high''
                 else if 5 / 10 \<le> c \<and> c < 8 / 10 then ''medium'' else ''low'')
              \<and> (c = 8 / 10 \<longrightarrow> a_severity a = ''high'')
              \<and> (c = 5 / 10 \<longrightarrow> a_severity a = ''medium''))"
proof -
  let ?n = "new_alert e b (fst (resolve_camera_tenant w (camera_id b)))
              (fst (snd (resolve_camera_tenant w (camera_id b))))"
  have created: "\<exists>a. alerts w' = alerts w @ [a] \<and> a_id a = new_id e" if "http_status r = 201"
    using postAlert_created [OF assms(1) that] by (auto simp: new_alert_def)
  have sev: "a_severity ?n =
               (if c \<ge> 8 / 10 then ''high''
                else if 5 / 10 \<le> c \<and> c < 8 / 10 then ''medium'' else ''low'')"
    using assms(2) by (simp add: new_alert_def severity_of_def)
  have "a_severity a =
          (if c \<ge> 8 / 10 then ''high''
           else if 5 / 10 \<le> c \<and> c < 8 / 10 then ''medium'' else ''low'')"
    if "alerts w' = alerts w @ [a]" for a
    using stored_alert [OF assms(1) that] sev by simp
  then show ?thesis
    using created by auto
qed

text \<open>The theorem at work: an alert with the confidence 0.8 is stored as \<^verbatim>\<open>high\<close>.\<close>

theorem postAlert_severity_witness:
  "http_status (snd (postAlert (request_env 1728000000500 alert_1 None) shop
      (bottle_alert ''iphone-wifi'' 1728000000000 (Some (8 / 10))))) = 201
   \<and> map a_severity (alerts (fst (postAlert (request_env 1728000000500 alert_1 None) shop
      (bottle_alert ''iphone-wifi'' 1728000000000 (Some (8 / 10)))))) = [''high'']"
proof -
  let ?e = "request_env 1728000000500 alert_1 None"
  let ?b = "bottle_alert ''iphone-wifi'' 1728000000000 (Some (8 / 10))"
  have ok: "http_status (snd (postAlert ?e shop ?b)) = 201"
    by code_simp
  have c: "confidence ?b = Some (8 / 10)"
    by (simp add: bottle_alert_def)
  have none: "alerts shop = []"
    by (simp add: shop_def)
  have run: "postAlert ?e shop ?b = (fst (postAlert ?e shop ?b), snd (postAlert ?e shop ?b))"
    by simp
  from postAlert_severity [OF run c]
  show ?thesis using ok none by auto
qed

subsection \<open>C5: a camera that is not registered\<close>

text \<open>
  Claim C5 wants a request of an unknown camera stored all the same, under the fallback
  location. The handlers fall back to the constant
  \<^verbatim>\<open>2139ff48-35b8-423f-b4cb-64ca303ef625\<close>, which their comment calls the seeded
  location; the seed script inserts its location under a generated identifier, and the
  schema makes \<^verbatim>\<open>location_id\<close> a foreign key. In the seeded shop, whose only
  location is \<open>berlin\<close> and whose only camera is \<^verbatim>\<open>iphone-wifi\<close>, the detection
  and the alert of \<^verbatim>\<open>ghost-cam\<close> are answered with 500 and nothing is stored or
  counted, while the same requests of the registered camera are answered with 201 and
  stored at \<open>berlin\<close>: the requests fail because the camera is unknown.
\<close>

theorem unknown_camera_fallback_row_missing:
  "map l_id (locations seeded_shop) = [berlin]
   \<and> map c_camera_id (cameras seeded_shop) = [''iphone-wifi'']
   \<and> snd ghost_detection_seeded = internal_error
   \<and> http_status (snd ghost_detection_seeded) = 500
   \<and> map d_id (cv_detections (fst ghost_detection_seeded)) = []
   \<and> daily_stats (fst ghost_detection_seeded) (fallback_location, 19999) = None
   \<and> snd ghost_alert_seeded = internal_error
   \<and> map a_id (alerts (fst ghost_alert_seeded)) = []
   \<and> daily_stats (fst ghost_alert_seeded) (fallback_location, 20000) = None
   \<and> snd known_detection_seeded = respond 201 (Created record_1)
   \<and> map d_location_id (cv_detections (fst known_detection_seeded)) = [berlin]
   \<and> snd known_alert_seeded = respond 201 (Created record_1)
   \<and> map a_location_id (alerts (fst known_alert_seeded)) = [berlin]"
  by code_simp

subsection \<open>C6: a publish that fails\<close>

text \<open>
  Claim C6 wants a failing publish swallowed by both ingestion handlers.
  \<^verbatim>\<open>postDetection\<close> does so, in a \<^verbatim>\<open>try/catch\<close> of its own around the emissions;
  \<^verbatim>\<open>postAlert\<close> has none. With a Socket.IO server on which every \<^verbatim>\<open>emit\<close> throws,
  the alert of the shop is stored under its identifier and counted in \<^verbatim>\<open>total_alerts\<close>,
  and the producer receives the status 500 instead of 201 and the identifier; the
  detection request, under the same server, receives 201.
\<close>

theorem postAlert_fanout_failure:
  "snd alert_while_io_down = internal_error
   \<and> http_status (snd alert_while_io_down) = 500
   \<and> map a_id (alerts (fst alert_while_io_down)) = [alert_1]
   \<and> map a_status (alerts (fst alert_while_io_down)) = [''open'']
   \<and> count_of (fst alert_while_io_down) berlin 20000 total_alerts = 1
   \<and> emitted (fst alert_while_io_down) = []
   \<and> snd detection_while_io_down = respond 201 (Created detection_1)
   \<and> map d_id (cv_detections (fst detection_while_io_down)) = [detection_1]"
  by code_simp

subsection \<open>C7: a status that is not one of the four\<close>

text \<open>
  Claim C7, as the code has it. A PATCH whose status is a non-empty string other than
  \<^verbatim>\<open>open\<close>, \<^verbatim>\<open>reviewed\<close>, \<^verbatim>\<open>dismissed\<close> and \<^verbatim>\<open>resolved\<close> is answered with 400
  and the message that lists the four, and the state is the one before: no alert, no
  aggregate and no emission has changed.
\<close>

theorem updateAlert_invalid_status:
  assumes "status r = Some s" and "s \<noteq> []" and "s \<notin> set validStatuses"
  shows "updateAlert e w r = (w, invalid_status)
       \<and> http_status invalid_status = 400
       \<and> json invalid_status =
           Error ''Invalid status. Must be one of: open, reviewed, dismissed, resolved''"
  using assms
  by (auto simp: updateAlert_def truthy_str_def invalid_status_def respond_def validStatuses_def)

text \<open>The theorem at work: the status \<^verbatim>\<open>closed\<close>.\<close>

theorem updateAlert_invalid_status_witness:
  "updateAlert (request_env 1728000900000 [] None) (shop_with_alert 1728000000000) closed_request
     = (shop_with_alert 1728000000000, invalid_status)
   \<and> http_status invalid_status = 400"
proof -
  have h: "status closed_request = Some ''closed''" "''closed'' \<noteq> []"
    "''closed'' \<notin> set validStatuses"
    by (simp_all add: closed_request_def validStatuses_def)
  from updateAlert_invalid_status [OF h]
  show ?thesis by simp
qed

text \<open>
  Claim C7 as stated covers every status outside the four. The empty string is outside
  them and falsy: line 313 lets it pass, the PATCH is answered with 200, and the alert
  has a reviewer it did not have.
\<close>

theorem updateAlert_blank_status_counterexample:
  "[] \<notin> set validStatuses
   \<and> status blank_status_request = Some []
   \<and> http_status (snd (updateAlert (request_env 1728000900000 [] None)
        (shop_with_alert 1728000000000) blank_status_request)) = 200
   \<and> map a_reviewed_by (alerts (shop_with_alert 1728000000000)) = [None]
   \<and> map a_reviewed_by (alerts (fst (updateAlert (request_env 1728000900000 [] None)
        (shop_with_alert 1728000000000) blank_status_request))) = [Some reviewer_9]"
  by code_simp

subsection \<open>C8: requests without a valid key\<close>

text \<open>
  Claim C8, as the code has it. A request whose \<^verbatim>\<open>x-api-key\<close> is missing (absent or
  empty) or is not one of the configured keys is answered by the middleware: with 401
  when the key is missing, with 500 when a key is presented and \<^verbatim>\<open>CV_API_KEYS\<close>
  configures none, with 403 otherwise. On the three routes of the CV engine the handler
  does not run: the state is the one before.
\<close>

theorem apiKeyAuth_rejects:
  assumes "\<not> truthy_str apiKey \<or> apiKey \<notin> Some ` set (validKeys e)"
  shows "\<exists>r. apiKeyAuth e apiKey = Some r
           \<and> http_status r = (if \<not> truthy_str apiKey then 401
                               else if validKeys e = [] then 500 else 403)
           \<and> route_detections e apiKey w d = (w, r)
           \<and> route_alerts e apiKey w a = (w, r)
           \<and> route_heartbeat e apiKey w h = (w, r)"
  using assms
  by (auto simp: apiKeyAuth_def route_detections_def route_alerts_def route_heartbeat_def
        guarded_def)

text \<open>The theorem at work: a key that is not among the two configured ones.\<close>

theorem apiKeyAuth_rejects_witness:
  "Some ''wrong-key'' \<notin> Some ` set (validKeys (request_env 1728000000500 detection_1 None))
   \<and> fst (route_detections (request_env 1728000000500 detection_1 None) (Some ''wrong-key'')
            shop late_detection) = shop
   \<and> http_status (snd (route_detections (request_env 1728000000500 detection_1 None)
            (Some ''wrong-key'') shop late_detection)) = 403"
proof -
  let ?e = "request_env 1728000000500 detection_1 None"
  have keys: "validKeys ?e = [''secret-a'', ''secret-b'']"
    by code_simp
  have h: "\<not> truthy_str (Some ''wrong-key'') \<or> Some ''wrong-key'' \<notin> Some ` set (validKeys ?e)"
    by (simp add: keys)
  from apiKeyAuth_rejects [OF h, of shop late_detection
      "bottle_alert ''iphone-wifi'' 1728000000000 None" idle_heartbeat]
  show ?thesis by (auto simp: keys truthy_str_def)
qed

text \<open>
  Claim C8 as stated answers every invalid key as unauthorized. Without \<^verbatim>\<open>CV_API_KEYS\<close>
  no key is valid, and a request that presents one is answered with the server error 500,
  \<^verbatim>\<open>API keys not configured\<close>.
\<close>

theorem apiKeyAuth_unconfigured_counterexample:
  "apiKeyAuth unconfigured_env (Some ''secret-a'')
     = Some (respond 500 (Error ''API keys not configured''))
   \<and> snd (route_detections unconfigured_env (Some ''secret-a'') shop late_detection)
     = respond 500 (Error ''API keys not configured'')"
  by code_simp

subsection \<open>C9: the location hint\<close>

text \<open>
  Claim C9. Two detection requests, and two alert requests, that differ only in their
  \<^verbatim>\<open>location_id\<close>, both truthy, have the same outcome: the same state afterwards
  (stored rows, \<^verbatim>\<open>daily_stats\<close>, emissions) and the same response.
\<close>

theorem location_hint_ignored:
  assumes "truthy_str h" and "truthy_str h'"
  shows "postDetection e w (d\<lparr>location_id := h\<rparr>) = postDetection e w (d\<lparr>location_id := h'\<rparr>)
       \<and> postAlert e w (a\<lparr>location_id := h\<rparr>) = postAlert e w (a\<lparr>location_id := h'\<rparr>)"
  using assms
  by (simp add: postDetection_def postAlert_def hint_unused Let_def
           cong: if_cong option.case_cong)

text \<open>The theorem at work: the hints \<^verbatim>\<open>loc-01\<close> and \<^verbatim>\<open>somewhere-else\<close>.\<close>

theorem location_hint_ignored_witness:
  "postDetection (request_env 1728000000500 record_1 None) shop
       (late_detection\<lparr>location_id := Some ''loc-01''\<rparr>)
     = postDetection (request_env 1728000000500 record_1 None) shop
       (late_detection\<lparr>location_id := Some ''somewhere-else''\<rparr>)
   \<and> postAlert (request_env 1728000000500 record_1 None) shop
       ((bottle_alert ''iphone-wifi'' 1728000000000 None)\<lparr>location_id := Some ''loc-01''\<rparr>)
     = postAlert (request_env 1728000000500 record_1 None) shop
       ((bottle_alert ''iphone-wifi'' 1728000000000 None)\<lparr>location_id := Some ''somewhere-else''\<rparr>)"
proof -
  have h: "truthy_str (Some ''loc-01'')" "truthy_str (Some ''somewhere-else'')"
    by (simp_all add: truthy_str_def)
  show ?thesis
    by (rule location_hint_ignored [OF h])
qed

subsection \<open>C10: an alert without confidence\<close>

text \<open>
  Claim C10. For an alert request without \<^verbatim>\<open>confidence\<close>: a response 201 means one
  row was appended to \<^verbatim>\<open>alerts\<close>, under the new identifier; and whenever the request
  has appended a row, its severity is \<^verbatim>\<open>low\<close> and its confidence is null.
\<close>

theorem postAlert_no_confidence:
  assumes "postAlert e w b = (w', r)" and "confidence b = None"
  shows "(http_status r = 201 \<longrightarrow> (\<exists>a. alerts w' = alerts w @ [a] \<and> a_id a = new_id e))
       \<and> (\<forall>a. alerts w' = alerts w @ [a] \<longrightarrow> a_severity a = ''low'' \<and> a_confidence a = None)"
proof -
  let ?n = "new_alert e b (fst (resolve_camera_tenant w (camera_id b)))
              (fst (snd (resolve_camera_tenant w (camera_id b))))"
  have created: "\<exists>a. alerts w' = alerts w @ [a] \<and> a_id a = new_id e" if "http_status r = 201"
    using postAlert_created [OF assms(1) that] by (auto simp: new_alert_def)
  have low: "a_severity ?n = ''low''" "a_confidence ?n = None"
    using assms(2) by (simp_all add: new_alert_def severity_of_def num_or_null_def)
  have "a_severity a = ''low'' \<and> a_confidence a = None"
    if "alerts w' = alerts w @ [a]" for a
    using stored_alert [OF assms(1) that] low by simp
  then show ?thesis
    using created by auto
qed

text \<open>The theorem at work: the alert of the shop, sent without confidence.\<close>

theorem postAlert_no_confidence_witness:
  "http_status (snd (postAlert (request_env 1728000000500 alert_1 None) shop
      (bottle_alert ''iphone-wifi'' 1728000000000 None))) = 201
   \<and> map a_severity (alerts (fst (postAlert (request_env 1728000000500 alert_1 None) shop
      (bottle_alert ''iphone-wifi'' 1728000000000 None)))) = [''low'']
   \<and> map a_confidence (alerts (fst (postAlert (request_env 1728000000500 alert_1 None) shop
      (bottle_alert ''iphone-wifi'' 1728000000000 None)))) = [None]"
proof -
  let ?e = "request_env 1728000000500 alert_1 None"
  let ?b = "bottle_alert ''iphone-wifi'' 1728000000000 None"
  have ok: "http_status (snd (postAlert ?e shop ?b)) = 201"
    by code_simp
  have c: "confidence ?b = None"
    by (simp add: bottle_alert_def)
  have none: "alerts shop = []"
    by (simp add: shop_def)
  have run: "postAlert ?e shop ?b = (fst (postAlert ?e shop ?b), snd (postAlert ?e shop ?b))"
    by simp
  from postAlert_no_confidence [OF run c]
  show ?thesis using ok none by auto
qed

end
